theory Spec2Isabelle
  imports Main "HOL-Library.Sublist" "HOL-Library.AList"
begin

section \<open>The fine-tuning notebook (lab_2/fine_tune_t5.ipynb)\<close>

text \<open>
  The notebook is a sequence of code cells that call the SageMaker SDK, pandas, the
  standard library and a few shell commands. Pure parts of the cells are HOL functions;
  every Python exception is a value of type \<open>error\<close>.
\<close>

datatype error =
    IndexError
  | KeyError
  | FileNotFoundError
  | ReadError
  | TypeError
  | External string

subsection \<open>The tables read by \<open>pd.read_json(..., lines=True)\<close>\<close>

text \<open>
  A data frame with the default integer index \<open>0 .. nrows - 1\<close>: the number of rows and
  the columns by name. \<open>shape0\<close> is \<open>df.shape[0]\<close>.
\<close>

record dataframe =
  nrows :: nat
  cols :: "(string \<times> string list) list"

definition shape0 :: "dataframe \<Rightarrow> int" where
  "shape0 df = int (nrows df)"

text \<open>
  \<open>df[c][i]\<close>: selecting a missing column raises \<open>KeyError\<close>, and so does an integer
  label that is not in the index.
\<close>

definition df_get :: "dataframe \<Rightarrow> string \<Rightarrow> int \<Rightarrow> error + string" where
  "df_get df c i =
     (case map_of (cols df) c of
        None \<Rightarrow> Inl KeyError
      | Some xs \<Rightarrow>
          if 0 \<le> i \<and> i < shape0 df \<and> nat i < length xs then Inr (xs ! nat i)
          else Inl KeyError)"

text \<open>
  \<open>random.randint(a, b)\<close> returns an integer \<open>N\<close> with \<open>a \<le> N \<le> b\<close>, both ends included.
  \<open>randint_may_return a b r\<close> says that \<open>r\<close> is a possible result.
\<close>

definition randint_may_return :: "int \<Rightarrow> int \<Rightarrow> int \<Rightarrow> bool" where
  "randint_may_return a b r = (a \<le> r \<and> r \<le> b)"

text \<open>
  The first two lines of the sampling cell, for the value \<open>r\<close> drawn by
  \<open>randint(0, test_data.shape[0])\<close>:
  \<open>random_dialogue = test_data["dialogue"][random_dialogue_idx]\<close>.
\<close>

definition random_dialogue :: "dataframe \<Rightarrow> int \<Rightarrow> error + string" where
  "random_dialogue test_data random_dialogue_idx =
     df_get test_data ''dialogue'' random_dialogue_idx"

subsection \<open>Paths\<close>

text \<open>
  \<open>os.path.dirname\<close> (posixpath): the part of the path up to and including the last
  slash, with trailing slashes stripped unless that part consists of slashes only.
\<close>

definition slash :: char where
  "slash = CHR ''/''"

definition rstrip_slash :: "string \<Rightarrow> string" where
  "rstrip_slash s = rev (dropWhile (\<lambda>c. c = slash) (rev s))"

definition dirname :: "string \<Rightarrow> string" where
  "dirname p =
     (let head = rev (dropWhile (\<lambda>c. c \<noteq> slash) (rev p)) in
      if head \<noteq> [] \<and> \<not> list_all (\<lambda>c. c = slash) head then rstrip_slash head
      else head)"

text \<open>\<open>os.path.join(a, b)\<close> for two arguments, as \<open>extractall\<close> uses it.\<close>

definition path_join :: "string \<Rightarrow> string \<Rightarrow> string" where
  "path_join a b =
     (if b \<noteq> [] \<and> hd b = slash then b
      else if a = [] \<or> last a = slash then a @ b
      else a @ [slash] @ b)"



subsection \<open>Files and archives\<close>

text \<open>
  The local file system below the notebook's working directory, as an association list
  from relative paths to file contents. A file holds bytes or is a gzip-compressed tar
  archive, given by its members in archive order; a member is a regular file or a
  directory entry. Directories of the file system are implicit in the paths.
\<close>

datatype content = Bytes string | TarGz "(string \<times> member) list"
  and member = RegFile content | Directory

type_synonym filesystem = "(string \<times> content) list"

definition newline :: char where
  "newline = CHR 0x0A"

text \<open>\<open>contents[-1]\<close>: the last element, \<open>IndexError\<close> on the empty list.\<close>

definition last_item :: "'a list \<Rightarrow> error + 'a" where
  "last_item xs = (if xs = [] then Inl IndexError else Inr (last xs))"

text \<open>\<open>tar.getnames()\<close>\<close>

definition getnames :: "(string \<times> member) list \<Rightarrow> string list" where
  "getnames ms = map fst ms"

text \<open>
  \<open>tar.extractall(dest)\<close>: the members are written in archive order, a later member
  replacing an earlier file of the same path.
\<close>

fun extractall :: "string \<Rightarrow> (string \<times> member) list \<Rightarrow> filesystem \<Rightarrow> filesystem" where
  "extractall dest [] fs = fs"
| "extractall dest ((n, RegFile c) # ms) fs =
     extractall dest ms (AList.update (path_join dest n) c fs)"
| "extractall dest ((n, Directory) # ms) fs = extractall dest ms fs"

text \<open>
  The cell that opens the downloaded training artifact:
  \<open>tarfile.open("model.tar.gz", "r:gz")\<close>, \<open>contents = tar.getnames()\<close>,
  \<open>model_id = os.path.dirname(contents[-1])\<close>, \<open>tar.extractall("src/inference/")\<close>.
  It returns \<open>model_id\<close> and the file system after extraction.
\<close>

definition extract_model_artifacts :: "filesystem \<Rightarrow> error + (string \<times> filesystem)" where
  "extract_model_artifacts fs =
     (case map_of fs ''model.tar.gz'' of
        None \<Rightarrow> Inl FileNotFoundError
      | Some (Bytes b) \<Rightarrow> Inl ReadError
      | Some (TarGz tar) \<Rightarrow>
          (case last_item (getnames tar) of
             Inl e \<Rightarrow> Inl e
           | Inr l \<Rightarrow> Inr (dirname l, extractall ''src/inference/'' tar fs)))"

text \<open>The text written to \<open>src/inference/serving.properties\<close>.\<close>

definition serving_properties :: "string \<Rightarrow> string" where
  "serving_properties model_id =
     ''engine=Python'' @ [newline] @ ''option.model_id='' @ model_id @ [newline] @ ''    ''"

definition write_serving_properties :: "string \<Rightarrow> filesystem \<Rightarrow> filesystem" where
  "write_serving_properties model_id fs =
     AList.update ''src/inference/serving.properties'' (Bytes (serving_properties model_id)) fs"

text \<open>
  The shell cell \<open>cd src/; tar czvf model.tar.gz inference/; mv model.tar.gz ../\<close>:
  every file below \<open>src/inference/\<close> becomes a member named relative to \<open>src/\<close>, and the
  archive replaces \<open>model.tar.gz\<close> in the working directory.
\<close>

definition tar_members :: "filesystem \<Rightarrow> (string \<times> member) list" where
  "tar_members fs =
     concat (map (\<lambda>p. case map_of fs p of
                         None \<Rightarrow> []
                       | Some c \<Rightarrow> [(drop (length ''src/'') p, RegFile c)])
                 (filter (prefix ''src/inference/'') (remdups (map fst fs))))"

definition create_model_package :: "filesystem \<Rightarrow> filesystem" where
  "create_model_package fs = AList.update ''model.tar.gz'' (TarGz (tar_members fs)) fs"


definition two_row_test_data :: dataframe where
  "two_row_test_data =
     \<lparr> nrows = 2,
       cols = [(''dialogue'', [''#Person1#: Hi.'', ''#Person2#: Bye.'']),
               (''summary'', [''greeting'', ''parting''])] \<rparr>"

subsection \<open>JSON values and the inference request\<close>

datatype json =
    JNull
  | JBool bool
  | JInt int
  | JStr string
  | JArr "json list"
  | JObj "(string \<times> json) list"

text \<open>
  Subscription of a deserialised JSON value as Python does it: \<open>v[k]\<close> for a string key
  and \<open>v[0]\<close>. A dictionary raises \<open>KeyError\<close> for a missing key, a list or string
  raises \<open>IndexError\<close> when it is empty and \<open>TypeError\<close> for a string key, and the other
  values are not subscriptable.
\<close>

fun getitem_key :: "json \<Rightarrow> string \<Rightarrow> error + json" where
  "getitem_key (JObj kvs) k = (case map_of kvs k of None \<Rightarrow> Inl KeyError | Some v \<Rightarrow> Inr v)"
| "getitem_key v k = Inl TypeError"

fun getitem_0 :: "json \<Rightarrow> error + json" where
  "getitem_0 (JArr xs) = (case xs of [] \<Rightarrow> Inl IndexError | x # rest \<Rightarrow> Inr x)"
| "getitem_0 (JStr cs) = (case cs of [] \<Rightarrow> Inl IndexError | c # rest \<Rightarrow> Inr (JStr [c]))"
| "getitem_0 (JObj kvs) = Inl KeyError"
| "getitem_0 v = Inl TypeError"

text \<open>\<open>{"inputs": [random_dialogue], "parameters": {"max_length": 100}}\<close>\<close>

definition request_payload :: "string \<Rightarrow> json" where
  "request_payload dialogue =
     JObj [(''inputs'', JArr [JStr dialogue]),
           (''parameters'', JObj [(''max_length'', JInt 100)])]"

text \<open>\<open>output_summary = output["outputs"][0]["summary_text"]\<close>\<close>

definition output_summary :: "json \<Rightarrow> error + json" where
  "output_summary output =
     (case getitem_key output ''outputs'' of
        Inl e \<Rightarrow> Inl e
      | Inr outputs \<Rightarrow>
          (case getitem_0 outputs of
             Inl e \<Rightarrow> Inl e
           | Inr first \<Rightarrow> getitem_key first ''summary_text''))"

subsection \<open>The training job configuration\<close>

text \<open>
  Hyperparameter values are strings, integers and the float literal \<open>3e-3\<close>, kept as
  its decimal mantissa and exponent.
\<close>

datatype hp_value = HStr string | HInt int | HFloat int int

definition s3_key_prefix :: string where
  "s3_key_prefix = ''flan-t5-finetune-for-dialogue''"

record tensorboard_output_config =
  s3_output_path :: string

record estimator =
  source_dir :: string
  entry_point :: string
  est_role :: string
  instance_count :: nat
  est_instance_type :: string
  framework_version :: string
  py_version :: string
  disable_profiler :: bool
  tensorboard_config :: tensorboard_output_config
  hyperparameters :: "(string \<times> hp_value) list"
  keep_alive_period_in_seconds :: nat

text \<open>The dictionary literal given as \<open>hyperparameters=\<close> to the \<open>PyTorch\<close> estimator.\<close>

definition training_hyperparameters :: "(string \<times> hp_value) list" where
  "training_hyperparameters =
     [(''training_script'', HStr ''train.py''),
      (''config_file'', HStr ''ds_zero3.yaml''),
      (''lr'', HFloat 3 (- 3)),
      (''batch_size'', HInt 2),
      (''subsample'', HInt 50),
      (''num_epochs'', HInt 2),
      (''pretrained_model_name_or_path'', HStr ''google/flan-t5-large'')]"

text \<open>
  The cell that builds \<open>tensorboard_output_config\<close> and the estimator from the execution
  role and the bucket.
\<close>

definition make_tensorboard_output_config :: "string \<Rightarrow> tensorboard_output_config" where
  "make_tensorboard_output_config bucket =
     \<lparr> s3_output_path = ''s3://'' @ bucket @ ''/'' @ s3_key_prefix @ ''/tensorboard'' \<rparr>"

definition make_estimator :: "string \<Rightarrow> string \<Rightarrow> estimator" where
  "make_estimator role bucket =
     \<lparr> source_dir = ''src/train'',
       entry_point = ''acc_launcher.py'',
       est_role = role,
       instance_count = 1,
       est_instance_type = ''ml.g5.24xlarge'',
       framework_version = ''1.13'',
       py_version = ''py39'',
       disable_profiler = True,
       tensorboard_config = make_tensorboard_output_config bucket,
       hyperparameters = training_hyperparameters,
       keep_alive_period_in_seconds = 3600 \<rparr>"

subsection \<open>Deployment objects\<close>

record model =
  image_uri :: string
  model_data :: string
  model_role :: string

datatype serializer = JSONSerializer
datatype deserializer = JSONDeserializer

record predictor =
  endpoint_name :: string
  pred_serializer :: serializer
  pred_deserializer :: deserializer

definition inference_image_uri :: "string \<Rightarrow> string" where
  "inference_image_uri region =
     ''763104351884.dkr.ecr.'' @ region
       @ ''.amazonaws.com/djl-inference:0.21.0-deepspeed0.8.0-cu117''"

subsection \<open>The world outside the notebook\<close>

text \<open>
  Everything the notebook calls but does not implement: the SageMaker SDK, boto3, pandas,
  the shell commands \<open>wget\<close> and \<open>aws s3 cp\<close>, and the random number generator. A call
  that may raise returns \<open>Inl\<close> of the exception. The shell commands run with the \<open>!\<close>
  prefix never raise: \<open>wget -O\<close> leaves whatever bytes it received in the output file and
  \<open>aws s3 cp\<close> leaves the downloaded file or nothing.
\<close>

record world =
  get_execution_role :: "error + string"
  new_session :: "error + unit"
  default_bucket :: "error + string"
  region_name :: string
  account_id :: "error + string"
  boto3_client :: "string \<Rightarrow> error + unit"
  wget :: "string \<Rightarrow> string"
  read_json :: "string \<Rightarrow> error + dataframe"
  upload_data :: "string \<Rightarrow> string \<Rightarrow> string \<Rightarrow> error + string"
  fit :: "estimator \<Rightarrow> (string \<times> string) list \<Rightarrow> bool \<Rightarrow> error + string"
  wait :: "string \<Rightarrow> error + unit"
  job_model_data :: "string \<Rightarrow> string"
  aws_s3_cp :: "string \<Rightarrow> content option"
  name_from_base :: "string \<Rightarrow> string"
  deploy :: "model \<Rightarrow> nat \<Rightarrow> string \<Rightarrow> string \<Rightarrow> error + unit"
  predict :: "string \<Rightarrow> json \<Rightarrow> error + json"
  delete_endpoint :: "string \<Rightarrow> error + unit"
  randint :: "int \<Rightarrow> int \<Rightarrow> int"

subsection \<open>Actions and the notebook state\<close>

text \<open>
  The steps of the notebook that act on the world or on local files, with their arguments.
  A run records each step it attempts: \<open>Done\<close> when the step returned, \<open>Raised\<close> with the
  exception when it did not.
\<close>

datatype action =
    GetExecutionRole
  | NewSession
  | DefaultBucket
  | AccountId
  | Boto3Client string
  | Wget string string
  | ReadJson string
  | UploadData string string string
  | Fit estimator "(string \<times> string) list" bool
  | WaitJob string
  | S3Cp string
  | ExtractArtifacts
  | WriteServingProperties
  | CreateModelPackage
  | NameFromBase string
  | Deploy model nat string string
  | Predict string json
  | DeleteEndpoint string

datatype entry = Done action | Raised action error

record nbstate =
  trace :: "entry list"
  files :: filesystem

type_synonym 'a nb = "nbstate \<Rightarrow> (error + 'a) \<times> nbstate"

definition return_nb :: "'a \<Rightarrow> 'a nb" where
  "return_nb x s = (Inr x, s)"

text \<open>Sequencing of statements: an exception ends the run where it is raised.\<close>

definition bind_nb :: "'a nb \<Rightarrow> ('a \<Rightarrow> 'b nb) \<Rightarrow> 'b nb" where
  "bind_nb m f s = (case m s of (Inl e, s') \<Rightarrow> (Inl e, s') | (Inr x, s') \<Rightarrow> f x s')"

text \<open>A call into the world with its outcome.\<close>

definition call_nb :: "action \<Rightarrow> error + 'a \<Rightarrow> 'a nb" where
  "call_nb a r s =
     (case r of
        Inl e \<Rightarrow> (Inl e, s\<lparr>trace := trace s @ [Raised a e]\<rparr>)
      | Inr x \<Rightarrow> (Inr x, s\<lparr>trace := trace s @ [Done a]\<rparr>))"

text \<open>A Python expression evaluated locally; it is not recorded.\<close>

definition lift_nb :: "error + 'a \<Rightarrow> 'a nb" where
  "lift_nb r s = (r, s)"

text \<open>A step on the local files that may raise.\<close>

definition local_nb :: "action \<Rightarrow> (filesystem \<Rightarrow> error + ('a \<times> filesystem)) \<Rightarrow> 'a nb" where
  "local_nb a g s =
     (case g (files s) of
        Inl e \<Rightarrow> (Inl e, s\<lparr>trace := trace s @ [Raised a e]\<rparr>)
      | Inr (x, fs) \<Rightarrow> (Inr x, s\<lparr>trace := trace s @ [Done a], files := fs\<rparr>))"

text \<open>A step on the local files that cannot raise.\<close>

definition shell_nb :: "action \<Rightarrow> (filesystem \<Rightarrow> filesystem) \<Rightarrow> unit nb" where
  "shell_nb a g s = (Inr (), s\<lparr>trace := trace s @ [Done a], files := g (files s)\<rparr>)"

subsection \<open>The cells\<close>

text \<open>
  The code cells in the order of the notebook, grouped by the values they hand on. Imports,
  \<open>print\<close> and \<open>head\<close> calls and the optional cell that displays the TensorBoard link
  have no effect on later cells and are left out; the two subscript expressions that are
  printed, \<open>train_data["dialogue"][0]\<close> and \<open>train_data["summary"][0]\<close>, are kept because
  they can raise.
\<close>

text \<open>
  Session setup: the execution role, the session, the bucket (asked for twice, as
  \<open>bucket\<close> and \<open>model_bucket\<close>), the region, the account and three boto3 clients. The
  cell returns \<open>role\<close>, \<open>bucket\<close> and \<open>region\<close>, the values used later.
\<close>

definition cell_setup :: "world \<Rightarrow> (string \<times> string \<times> string) nb" where
  "cell_setup w =
     bind_nb (call_nb GetExecutionRole (get_execution_role w)) (\<lambda>role.
     bind_nb (call_nb NewSession (new_session w)) (\<lambda>sess.
     bind_nb (call_nb DefaultBucket (default_bucket w)) (\<lambda>bucket.
     bind_nb (call_nb DefaultBucket (default_bucket w)) (\<lambda>model_bucket.
     bind_nb (call_nb AccountId (account_id w)) (\<lambda>account.
     bind_nb (call_nb (Boto3Client ''s3'') (boto3_client w ''s3'')) (\<lambda>s3_client.
     bind_nb (call_nb (Boto3Client ''sagemaker'') (boto3_client w ''sagemaker'')) (\<lambda>sm_client.
     bind_nb (call_nb (Boto3Client ''sagemaker-runtime'') (boto3_client w ''sagemaker-runtime''))
       (\<lambda>smr_client.
     return_nb (role, bucket, region_name w)))))))))"

definition train_url :: string where
  "train_url = ''https://raw.githubusercontent.com/cylnlp/dialogsum/main/DialogSum_Data/dialogsum.train.jsonl''"

definition test_url :: string where
  "test_url = ''https://raw.githubusercontent.com/cylnlp/dialogsum/main/DialogSum_Data/dialogsum.test.jsonl''"

definition train_path :: string where
  "train_path = ''data/dialogsum.train.jsonl''"

definition test_path :: string where
  "test_path = ''data/dialogsum.test.jsonl''"

text \<open>\<open>!wget url -O path\<close>\<close>

definition download :: "world \<Rightarrow> string \<Rightarrow> string \<Rightarrow> unit nb" where
  "download w url path =
     shell_nb (Wget url path) (AList.update path (Bytes (wget w url)))"

text \<open>\<open>pd.read_json(path, lines=True)\<close>\<close>

definition load_table :: "world \<Rightarrow> string \<Rightarrow> dataframe nb" where
  "load_table w path =
     local_nb (ReadJson path)
       (\<lambda>fs. case map_of fs path of
                 Some (Bytes b) \<Rightarrow>
                   (case read_json w b of Inl e \<Rightarrow> Inl e | Inr df \<Rightarrow> Inr (df, fs))
               | _ \<Rightarrow> Inl FileNotFoundError)"

text \<open>
  Download and inspection of the data set, then the upload of the training file. The
  cell returns \<open>test_data\<close> and \<open>s3_data_path\<close>.
\<close>

definition cell_data :: "world \<Rightarrow> string \<Rightarrow> (dataframe \<times> string) nb" where
  "cell_data w bucket =
     bind_nb (download w train_url train_path) (\<lambda>u1.
     bind_nb (download w test_url test_path) (\<lambda>u2.
     bind_nb (load_table w train_path) (\<lambda>train_data.
     bind_nb (load_table w test_path) (\<lambda>test_data.
     bind_nb (lift_nb (df_get train_data ''dialogue'' 0)) (\<lambda>shown_dialogue.
     bind_nb (lift_nb (df_get train_data ''summary'' 0)) (\<lambda>shown_summary.
     bind_nb (call_nb (UploadData train_path bucket (s3_key_prefix @ ''/data''))
                (upload_data w train_path bucket (s3_key_prefix @ ''/data''))) (\<lambda>s3_data_path.
     return_nb (test_data, s3_data_path))))))))"

text \<open>
  The estimator, \<open>estimator.fit({"train": s3_data_path}, wait=False)\<close> and, in the
  deployment section, \<open>estimator.latest_training_job.wait(logs="None")\<close>. The cell returns
  the training job.
\<close>

definition cell_train :: "world \<Rightarrow> string \<Rightarrow> string \<Rightarrow> string \<Rightarrow> string nb" where
  "cell_train w role bucket s3_data_path =
     (let est = make_estimator role bucket in
      bind_nb (call_nb (Fit est [(''train'', s3_data_path)] False)
                 (fit w est [(''train'', s3_data_path)] False)) (\<lambda>job.
      bind_nb (call_nb (WaitJob job) (wait w job)) (\<lambda>u.
      return_nb job)))"

text \<open>\<open>!aws s3 cp {estimator.model_data} .\<close>\<close>

definition download_artifact :: "world \<Rightarrow> string \<Rightarrow> unit nb" where
  "download_artifact w src =
     shell_nb (S3Cp src)
       (\<lambda>fs. case aws_s3_cp w src of None \<Rightarrow> fs | Some c \<Rightarrow> AList.update ''model.tar.gz'' c fs)"

text \<open>
  Packaging: download of the artifact, extraction, the properties file, the new archive
  and its upload. The cell returns \<open>hf_s3_code_artifact\<close>.
\<close>

definition cell_package :: "world \<Rightarrow> string \<Rightarrow> string \<Rightarrow> string nb" where
  "cell_package w bucket job =
     bind_nb (download_artifact w (job_model_data w job)) (\<lambda>u1.
     bind_nb (local_nb ExtractArtifacts extract_model_artifacts) (\<lambda>model_id.
     bind_nb (shell_nb WriteServingProperties (write_serving_properties model_id)) (\<lambda>u2.
     bind_nb (shell_nb CreateModelPackage create_model_package) (\<lambda>u3.
     call_nb (UploadData ''model.tar.gz'' bucket (s3_key_prefix @ ''/model''))
       (upload_data w ''model.tar.gz'' bucket (s3_key_prefix @ ''/model''))))))"

text \<open>The helper \<open>deploy_model\<close> of the notebook.\<close>

definition deploy_model ::
  "world \<Rightarrow> string \<Rightarrow> string \<Rightarrow> string \<Rightarrow> string \<Rightarrow> string \<Rightarrow> predictor nb" where
  "deploy_model w uri model_data_uri role name instance_type =
     (let model = \<lparr> image_uri = uri, model_data = model_data_uri, model_role = role \<rparr> in
      bind_nb (call_nb (Deploy model 1 instance_type name) (deploy w model 1 instance_type name))
        (\<lambda>u.
      return_nb \<lparr> endpoint_name = name,
                  pred_serializer = JSONSerializer,
                  pred_deserializer = JSONDeserializer \<rparr>))"

text \<open>The endpoint name and the deployment. The cell returns \<open>hf_predictor\<close>.\<close>

definition cell_deploy :: "world \<Rightarrow> string \<Rightarrow> string \<Rightarrow> string \<Rightarrow> predictor nb" where
  "cell_deploy w role region hf_s3_code_artifact =
     bind_nb (call_nb (NameFromBase ''t5-summarization'')
                (Inr (name_from_base w ''t5-summarization''))) (\<lambda>hf_endpoint_name.
     deploy_model w (inference_image_uri region) hf_s3_code_artifact role hf_endpoint_name
       ''ml.g4dn.xlarge'')"

text \<open>The sample request. The cell returns \<open>output_summary\<close>.\<close>

definition cell_predict :: "world \<Rightarrow> predictor \<Rightarrow> dataframe \<Rightarrow> json nb" where
  "cell_predict w hf_predictor test_data =
     (let random_dialogue_idx = randint w 0 (shape0 test_data) in
      bind_nb (lift_nb (random_dialogue test_data random_dialogue_idx)) (\<lambda>dialogue.
      bind_nb (call_nb (Predict (endpoint_name hf_predictor) (request_payload dialogue))
                 (predict w (endpoint_name hf_predictor) (request_payload dialogue))) (\<lambda>output.
      lift_nb (output_summary output))))"

text \<open>\<open>hf_predictor.delete_endpoint()\<close>\<close>

definition cell_teardown :: "world \<Rightarrow> predictor \<Rightarrow> unit nb" where
  "cell_teardown w hf_predictor =
     call_nb (DeleteEndpoint (endpoint_name hf_predictor))
       (delete_endpoint w (endpoint_name hf_predictor))"

text \<open>The cells in notebook order.\<close>

definition notebook :: "world \<Rightarrow> unit nb" where
  "notebook w =
     bind_nb (cell_setup w) (\<lambda>(role, bucket, region).
     bind_nb (cell_data w bucket) (\<lambda>(test_data, s3_data_path).
     bind_nb (cell_train w role bucket s3_data_path) (\<lambda>job.
     bind_nb (cell_package w bucket job) (\<lambda>hf_s3_code_artifact.
     bind_nb (cell_deploy w role region hf_s3_code_artifact) (\<lambda>hf_predictor.
     bind_nb (cell_predict w hf_predictor test_data) (\<lambda>summary.
     cell_teardown w hf_predictor))))))"

text \<open>A run starts with an empty record on the files of the checkout.\<close>

definition run :: "world \<Rightarrow> filesystem \<Rightarrow> (error + unit) \<times> nbstate" where
  "run w fs = notebook w \<lparr> trace = [], files = fs \<rparr>"

subsection \<open>The linear script\<close>

text \<open>
  The specification describes the notebook as a linear script of nine steps. \<open>linear_script\<close>
  is that script as the list of actions a complete run performs in a world \<open>w\<close>, with the
  values each call returns there; \<open>phase_of\<close> assigns every action to one of the nine steps
  (the upload of the new archive belongs to the deployment).
\<close>

definition action_of :: "entry \<Rightarrow> action" where
  "action_of en = (case en of Done a \<Rightarrow> a | Raised a e \<Rightarrow> a)"

definition is_done :: "entry \<Rightarrow> bool" where
  "is_done en = (case en of Done a \<Rightarrow> True | Raised a e \<Rightarrow> False)"

definition script_setup :: "action list" where
  "script_setup =
     [GetExecutionRole, NewSession, DefaultBucket, DefaultBucket, AccountId,
      Boto3Client ''s3'', Boto3Client ''sagemaker'', Boto3Client ''sagemaker-runtime'']"

definition script_data :: "string \<Rightarrow> action list" where
  "script_data bucket =
     [Wget train_url train_path, Wget test_url test_path,
      ReadJson train_path, ReadJson test_path,
      UploadData train_path bucket (s3_key_prefix @ ''/data'')]"

definition script_train :: "estimator \<Rightarrow> string \<Rightarrow> string \<Rightarrow> action list" where
  "script_train est s3_data_path job = [Fit est [(''train'', s3_data_path)] False, WaitJob job]"

definition script_package :: "world \<Rightarrow> string \<Rightarrow> string \<Rightarrow> action list" where
  "script_package w bucket job =
     [S3Cp (job_model_data w job),
      ExtractArtifacts, WriteServingProperties, CreateModelPackage,
      UploadData ''model.tar.gz'' bucket (s3_key_prefix @ ''/model'')]"

definition script_deploy :: "world \<Rightarrow> string \<Rightarrow> string \<Rightarrow> action list" where
  "script_deploy w role artifact =
     [NameFromBase ''t5-summarization'',
      Deploy \<lparr> image_uri = inference_image_uri (region_name w), model_data = artifact,
               model_role = role \<rparr> 1 ''ml.g4dn.xlarge'' (name_from_base w ''t5-summarization'')]"

definition script_predict :: "world \<Rightarrow> string \<Rightarrow> action list" where
  "script_predict w dialogue =
     [Predict (name_from_base w ''t5-summarization'') (request_payload dialogue)]"

definition script_teardown :: "world \<Rightarrow> action list" where
  "script_teardown w = [DeleteEndpoint (name_from_base w ''t5-summarization'')]"

definition linear_script :: "world \<Rightarrow> action list" where
  "linear_script w =
     (let role = projr (get_execution_role w);
          bucket = projr (default_bucket w);
          est = make_estimator role bucket;
          s3_data_path = projr (upload_data w train_path bucket (s3_key_prefix @ ''/data''));
          job = projr (fit w est [(''train'', s3_data_path)] False);
          artifact = projr (upload_data w ''model.tar.gz'' bucket (s3_key_prefix @ ''/model''));
          test_data = projr (read_json w (wget w test_url));
          dialogue = projr (random_dialogue test_data (randint w 0 (shape0 test_data)))
      in script_setup @ script_data bucket @ script_train est s3_data_path job
         @ script_package w bucket job @ script_deploy w role artifact
         @ script_predict w dialogue @ script_teardown w)"

datatype phase =
    Configure
  | FetchInspect
  | UploadTrainingData
  | SubmitTraining
  | WaitTraining
  | Repackage
  | DeployEndpoint
  | SampleRequest
  | TearDown

fun phase_of :: "action \<Rightarrow> phase" where
  "phase_of GetExecutionRole = Configure"
| "phase_of NewSession = Configure"
| "phase_of DefaultBucket = Configure"
| "phase_of AccountId = Configure"
| "phase_of (Boto3Client n) = Configure"
| "phase_of (Wget u p) = FetchInspect"
| "phase_of (ReadJson p) = FetchInspect"
| "phase_of (UploadData p b k) = (if p = ''model.tar.gz'' then DeployEndpoint else UploadTrainingData)"
| "phase_of (Fit e i wt) = (if wt then WaitTraining else SubmitTraining)"
| "phase_of (WaitJob j) = WaitTraining"
| "phase_of (S3Cp u) = Repackage"
| "phase_of ExtractArtifacts = Repackage"
| "phase_of WriteServingProperties = Repackage"
| "phase_of CreateModelPackage = Repackage"
| "phase_of (NameFromBase b) = DeployEndpoint"
| "phase_of (Deploy m n t e) = DeployEndpoint"
| "phase_of (Predict e p) = SampleRequest"
| "phase_of (DeleteEndpoint e) = TearDown"

text \<open>
  The record of a run against a script: without an exception every action of the script
  is \<open>Done\<close>; with exception \<open>e\<close> the record is a run of \<open>Done\<close> actions along the script
  that ends either in the action that raised \<open>e\<close> or, when \<open>e\<close> came from a local
  subscript expression, without a further entry.
\<close>

definition is_local :: "error \<Rightarrow> bool" where
  "is_local e = (e = KeyError \<or> e = IndexError \<or> e = TypeError)"

fun follows :: "error option \<Rightarrow> entry list \<Rightarrow> action list \<Rightarrow> bool" where
  "follows None es as = (es = map Done as)"
| "follows (Some e) [] as = is_local e"
| "follows (Some e) (en # es) [] = False"
| "follows (Some e) (en # es) (a # as) =
     ((en = Raised a e \<and> es = []) \<or> (en = Done a \<and> follows (Some e) es as))"

definition raised :: "(error + 'a) \<Rightarrow> error option" where
  "raised r = (case r of Inl e \<Rightarrow> Some e | Inr x \<Rightarrow> None)"

text \<open>An upload that goes to the session's default bucket under the fixed key prefix.\<close>

fun upload_ok :: "world \<Rightarrow> action \<Rightarrow> bool" where
  "upload_ok w (UploadData p b k) =
     (default_bucket w = Inr b
      \<and> (p = train_path \<and> k = s3_key_prefix @ ''/data''
         \<or> p = ''model.tar.gz'' \<and> k = s3_key_prefix @ ''/model''))"
| "upload_ok w (Fit est inputs wt) =
     (case default_bucket w of
        Inl e \<Rightarrow> False
      | Inr b \<Rightarrow> s3_output_path (tensorboard_config est)
                  = ''s3://'' @ b @ ''/'' @ s3_key_prefix @ ''/tensorboard'')"
| "upload_ok w a = True"

text \<open>
  What the world returns for the calls whose outcome depends on the world and the
  arguments alone: \<open>Some None\<close> when the call returns, \<open>Some (Some e)\<close> when it raises
  \<open>e\<close>. The steps on local files have no entry. A record entry is faithful when it agrees
  with the world.
\<close>

fun call_result :: "world \<Rightarrow> action \<Rightarrow> error option option" where
  "call_result w GetExecutionRole = Some (raised (get_execution_role w))"
| "call_result w NewSession = Some (raised (new_session w))"
| "call_result w DefaultBucket = Some (raised (default_bucket w))"
| "call_result w AccountId = Some (raised (account_id w))"
| "call_result w (Boto3Client n) = Some (raised (boto3_client w n))"
| "call_result w (UploadData p b k) = Some (raised (upload_data w p b k))"
| "call_result w (Fit est inputs wt) = Some (raised (fit w est inputs wt))"
| "call_result w (WaitJob job) = Some (raised (wait w job))"
| "call_result w (Deploy m n t name) = Some (raised (deploy w m n t name))"
| "call_result w (Predict name payload) = Some (raised (predict w name payload))"
| "call_result w (DeleteEndpoint name) = Some (raised (delete_endpoint w name))"
| "call_result w a = None"

fun faithful :: "world \<Rightarrow> entry \<Rightarrow> bool" where
  "faithful w (Done a) = (call_result w a = None \<or> call_result w a = Some None)"
| "faithful w (Raised a e) = (call_result w a = None \<or> call_result w a = Some (Some e))"

text \<open>
  \<open>performs w m as Q\<close>: from any state, the statements \<open>m\<close> extend the record by entries
  that follow the script \<open>as\<close>, are faithful to the world and keep every upload in the
  default bucket, and a returned value satisfies \<open>Q\<close>.
\<close>

definition performs :: "world \<Rightarrow> 'a nb \<Rightarrow> action list \<Rightarrow> ('a \<Rightarrow> bool) \<Rightarrow> bool" where
  "performs w m as Q =
     (\<forall>s r s'. m s = (r, s') \<longrightarrow>
        (\<exists>es. trace s' = trace s @ es \<and> follows (raised r) es as
              \<and> list_all (\<lambda>en. upload_ok w (action_of en) \<and> faithful w en) es
              \<and> (\<forall>x. r = Inr x \<longrightarrow> Q x)))"

text \<open>Sample archives and file systems.\<close>

definition example_artifact :: "(string \<times> member) list" where
  "example_artifact =
     [(''flan-t5-large'', Directory),
      (''flan-t5-large/adapter_config.json'', RegFile (Bytes ''{}'')),
      (''flan-t5-large/adapter_model.bin'', RegFile (Bytes ''weights''))]"

definition example_fs :: filesystem where
  "example_fs =
     [(''model.tar.gz'', TarGz example_artifact),
      (''src/inference/model.py'', Bytes ''def handle(inputs): pass''),
      (''src/inference/requirements.txt'', Bytes ''peft'')]"



subsection \<open>Properties of recorded actions\<close>

text \<open>The nine steps of the specification's overview, in order.\<close>

definition nine_steps :: "phase list" where
  "nine_steps =
     [Configure, FetchInspect, UploadTrainingData, SubmitTraining, WaitTraining,
      Repackage, DeployEndpoint, SampleRequest, TearDown]"

text \<open>The exceptions recorded in a run.\<close>

definition raised_errors :: "entry list \<Rightarrow> error list" where
  "raised_errors es = concat (map (\<lambda>en. case en of Done a \<Rightarrow> [] | Raised a e \<Rightarrow> [e]) es)"

text \<open>Fetching, reading and uploading the file at a given path.\<close>

fun fetches :: "string \<Rightarrow> action \<Rightarrow> bool" where
  "fetches p (Wget u q) = (q = p)"
| "fetches p a = False"

fun reads :: "string \<Rightarrow> action \<Rightarrow> bool" where
  "reads p (ReadJson q) = (q = p)"
| "reads p a = False"

fun uploads :: "string \<Rightarrow> action \<Rightarrow> bool" where
  "uploads p (UploadData q b k) = (q = p)"
| "uploads p a = False"

definition times :: "('a \<Rightarrow> bool) \<Rightarrow> 'a list \<Rightarrow> nat" where
  "times P xs = length (filter P xs)"

text \<open>A training job submitted with the hyperparameter dictionary of the notebook.\<close>

fun passes_hyperparameters :: "action \<Rightarrow> bool" where
  "passes_hyperparameters (Fit est inputs wt) = (hyperparameters est = training_hyperparameters)"
| "passes_hyperparameters a = True"





subsection \<open>A world in which every call returns\<close>

definition demo_response :: json where
  "demo_response = JObj [(''outputs'', JArr [JObj [(''summary_text'', JStr ''They greet.'')]])]"

definition demo_world :: world where
  "demo_world =
     \<lparr> get_execution_role = Inr ''arn:role'',
       new_session = Inr (),
       default_bucket = Inr ''sagemaker-bucket'',
       region_name = ''us-east-1'',
       account_id = Inr ''123456789012'',
       boto3_client = (\<lambda>n. Inr ()),
       wget = (\<lambda>u. ''{}''),
       read_json = (\<lambda>b. Inr two_row_test_data),
       upload_data = (\<lambda>p b k. Inr (''s3://'' @ b @ ''/'' @ k)),
       fit = (\<lambda>est inputs wt. Inr ''job-1''),
       wait = (\<lambda>job. Inr ()),
       job_model_data = (\<lambda>job. ''s3://sagemaker-bucket/job-1/output/model.tar.gz''),
       aws_s3_cp = (\<lambda>src. Some (TarGz example_artifact)),
       name_from_base = (\<lambda>b. b @ ''-2023-05-01''),
       deploy = (\<lambda>m n t name. Inr ()),
       predict = (\<lambda>name payload. Inr demo_response),
       delete_endpoint = (\<lambda>name. Inr ()),
       randint = (\<lambda>a b. a) \<rparr>"


section \<open>Sampling a test example\<close>

text \<open>
  C1. The claim is that the sampled index always names an existing row, so the lookup of
  the dialogue column cannot fail. On a test table with two rows the draw
  \<open>randint(0, 2)\<close> may return 2, which is not in the index \<open>0, 1\<close>, and the lookup
  raises \<open>KeyError\<close>.
\<close>

theorem sampled_index_out_of_range:
  "randint_may_return 0 (shape0 two_row_test_data) 2
   \<and> random_dialogue two_row_test_data 2 = Inl KeyError"
  by (simp add: randint_may_return_def shape0_def random_dialogue_def df_get_def
      two_row_test_data_def)

section \<open>Repackaging the trained model\<close>

subsection \<open>Auxiliary facts about paths, extraction and archive creation\<close>



















section \<open>Runs of the notebook\<close>

subsection \<open>Every run follows the linear script\<close>

lemma paths_differ: "train_path \<noteq> test_path" "test_path \<noteq> train_path"
  by (simp_all add: train_path_def test_path_def)

lemma follows_done: "follows (Some e) es as \<Longrightarrow> follows (Some e) es (as @ bs)"
  by (induction "Some e" es as rule: follows.induct) auto

lemma follows_append:
  "follows r es bs \<Longrightarrow> follows r (map Done as @ es) (as @ bs)"
  by (induction as) (cases r; auto)+

lemma performsD:
  assumes "performs w m as Q" and "m s = (r, s')"
  shows "\<exists>es. trace s' = trace s @ es \<and> follows (raised r) es as
              \<and> list_all (\<lambda>en. upload_ok w (action_of en) \<and> faithful w en) es
              \<and> (\<forall>x. r = Inr x \<longrightarrow> Q x)"
  using assms(1) [unfolded performs_def, rule_format, OF assms(2)] .

lemma performs_bind:
  assumes "performs w m as Q" and "\<And>x. Q x \<Longrightarrow> performs w (f x) bs R"
  shows "performs w (bind_nb m f) (as @ bs) R"
  unfolding performs_def
proof (intro allI impI)
  fix s r s' assume run: "bind_nb m f s = (r, s')"
  obtain r1 s1 where m: "m s = (r1, s1)" by (cases "m s")
  from performsD [OF assms(1) m] obtain es1 where es1: "trace s1 = trace s @ es1"
      "follows (raised r1) es1 as" "list_all (\<lambda>en. upload_ok w (action_of en) \<and> faithful w en) es1"
      "\<forall>x. r1 = Inr x \<longrightarrow> Q x"
    by (elim exE conjE)
  show "\<exists>es. trace s' = trace s @ es \<and> follows (raised r) es (as @ bs)
              \<and> list_all (\<lambda>en. upload_ok w (action_of en) \<and> faithful w en) es
              \<and> (\<forall>x. r = Inr x \<longrightarrow> R x)"
  proof (cases r1)
    case (Inl e)
    with run m have "r = Inl e" "s' = s1" by (simp_all add: bind_nb_def)
    with es1 Inl show ?thesis by (auto simp add: raised_def follows_done)
  next
    case (Inr x)
    with run m have fx: "f x s1 = (r, s')" by (simp add: bind_nb_def)
    from es1(4) Inr have "Q x" by simp
    from performsD [OF assms(2) [OF this] fx] obtain es2 where es2: "trace s' = trace s1 @ es2"
        "follows (raised r) es2 bs" "list_all (\<lambda>en. upload_ok w (action_of en) \<and> faithful w en) es2"
        "\<forall>y. r = Inr y \<longrightarrow> R y"
      by (elim exE conjE)
    from es1(2) Inr have "es1 = map Done as" by (simp add: raised_def)
    with es1 es2 follows_append [OF es2(2), of as] show ?thesis
      by (intro exI [of _ "es1 @ es2"]) simp
  qed
qed

lemmas nb_unfold = bind_nb_def call_nb_def return_nb_def lift_nb_def local_nb_def shell_nb_def

lemma getitem_key_local: "getitem_key v k = Inl e \<Longrightarrow> is_local e"
  by (cases v) (auto simp add: is_local_def split: option.splits)

lemma getitem_0_local: "getitem_0 v = Inl e \<Longrightarrow> is_local e"
  by (cases v) (auto simp add: is_local_def split: list.splits)

lemma output_summary_local: "output_summary v = Inl e \<Longrightarrow> is_local e"
  unfolding output_summary_def
  by (auto split: sum.splits dest: getitem_key_local getitem_0_local)

lemma df_get_local: "df_get df c i = Inl e \<Longrightarrow> is_local e"
  unfolding df_get_def is_local_def by (auto split: option.splits if_splits)

lemma performs_setup:
  "performs w (cell_setup w) script_setup
     (\<lambda>(role, bucket, region). get_execution_role w = Inr role \<and> default_bucket w = Inr bucket
         \<and> region = region_name w)"
  unfolding performs_def cell_setup_def nb_unfold script_setup_def
  by (auto split: sum.splits simp add: raised_def action_of_def)

lemma performs_data:
  assumes "default_bucket w = Inr bucket"
  shows "performs w (cell_data w bucket) (script_data bucket)
     (\<lambda>(test_data, s3_data_path). read_json w (wget w test_url) = Inr test_data
         \<and> upload_data w train_path bucket (s3_key_prefix @ ''/data'') = Inr s3_data_path)"
  unfolding performs_def cell_data_def download_def load_table_def nb_unfold script_data_def
  using assms
  by (auto split: sum.splits simp add: raised_def action_of_def update_conv' paths_differ
      df_get_local)

lemma performs_train:
  assumes "default_bucket w = Inr bucket"
  shows "performs w (cell_train w role bucket s3_data_path)
     (script_train (make_estimator role bucket) s3_data_path
        (projr (fit w (make_estimator role bucket) [(''train'', s3_data_path)] False)))
     (\<lambda>job. fit w (make_estimator role bucket) [(''train'', s3_data_path)] False = Inr job)"
  unfolding performs_def cell_train_def nb_unfold script_train_def Let_def
  using assms
  by (auto split: sum.splits simp add: raised_def action_of_def make_estimator_def
      make_tensorboard_output_config_def)

lemma performs_package:
  assumes "default_bucket w = Inr bucket"
  shows "performs w (cell_package w bucket job) (script_package w bucket job)
     (\<lambda>artifact. upload_data w ''model.tar.gz'' bucket (s3_key_prefix @ ''/model'') = Inr artifact)"
  unfolding performs_def cell_package_def download_artifact_def nb_unfold script_package_def
  using assms
  by (auto split: sum.splits simp add: raised_def action_of_def)

lemma performs_deploy:
  "performs w (cell_deploy w role (region_name w) artifact) (script_deploy w role artifact)
     (\<lambda>p. endpoint_name p = name_from_base w ''t5-summarization'')"
  unfolding performs_def cell_deploy_def deploy_model_def nb_unfold script_deploy_def Let_def
  by (auto split: sum.splits simp add: raised_def action_of_def)

lemma performs_predict:
  assumes "endpoint_name p = name_from_base w ''t5-summarization''"
  shows "performs w (cell_predict w p test_data)
     (script_predict w (projr (random_dialogue test_data (randint w 0 (shape0 test_data)))))
     (\<lambda>summary. True)"
  unfolding performs_def cell_predict_def nb_unfold script_predict_def Let_def
  using assms
  by (auto split: sum.splits simp add: raised_def action_of_def random_dialogue_def
      df_get_local output_summary_local)

lemma performs_teardown:
  assumes "endpoint_name p = name_from_base w ''t5-summarization''"
  shows "performs w (cell_teardown w p) (script_teardown w) (\<lambda>u. True)"
  unfolding performs_def cell_teardown_def nb_unfold script_teardown_def
  using assms
  by (auto split: sum.splits simp add: raised_def action_of_def)

lemma performs_notebook: "performs w (notebook w) (linear_script w) (\<lambda>u. True)"
proof -
  define name where "name = name_from_base w ''t5-summarization''"
  define D where "D td = projr (random_dialogue td (randint w 0 (shape0 td)))" for td
  have t6: "performs w (bind_nb (cell_predict w p td) (\<lambda>summary. cell_teardown w p))
              (script_predict w (D td) @ script_teardown w) (\<lambda>u. True)"
    if "endpoint_name p = name" for p td
    unfolding D_def
    by (rule performs_bind [OF performs_predict performs_teardown])
       (use that in \<open>simp_all add: name_def\<close>)
  have t5: "performs w
              (bind_nb (cell_deploy w role (region_name w) art) (\<lambda>p.
               bind_nb (cell_predict w p td) (\<lambda>summary. cell_teardown w p)))
              (script_deploy w role art @ script_predict w (D td) @ script_teardown w)
              (\<lambda>u. True)" for role art td
    by (rule performs_bind [OF performs_deploy]) (rule t6, simp add: name_def)
  have t4: "performs w
              (bind_nb (cell_package w bucket job) (\<lambda>art.
               bind_nb (cell_deploy w role (region_name w) art) (\<lambda>p.
               bind_nb (cell_predict w p td) (\<lambda>summary. cell_teardown w p))))
              (script_package w bucket job
               @ script_deploy w role
                   (projr (upload_data w ''model.tar.gz'' bucket (s3_key_prefix @ ''/model'')))
               @ script_predict w (D td) @ script_teardown w)
              (\<lambda>u. True)"
    if "default_bucket w = Inr bucket" for role bucket job td
  proof (rule performs_bind [OF performs_package [OF that]])
    fix art
    assume "upload_data w ''model.tar.gz'' bucket (s3_key_prefix @ ''/model'') = Inr art"
    then show "performs w
              (bind_nb (cell_deploy w role (region_name w) art) (\<lambda>p.
               bind_nb (cell_predict w p td) (\<lambda>summary. cell_teardown w p)))
              (script_deploy w role
                   (projr (upload_data w ''model.tar.gz'' bucket (s3_key_prefix @ ''/model'')))
               @ script_predict w (D td) @ script_teardown w)
              (\<lambda>u. True)"
      using t5 [of role art td] by simp
  qed
  have t3: "performs w
              (bind_nb (cell_train w role bucket p) (\<lambda>job.
               bind_nb (cell_package w bucket job) (\<lambda>art.
               bind_nb (cell_deploy w role (region_name w) art) (\<lambda>p.
               bind_nb (cell_predict w p td) (\<lambda>summary. cell_teardown w p)))))
              (script_train (make_estimator role bucket) p
                 (projr (fit w (make_estimator role bucket) [(''train'', p)] False))
               @ script_package w bucket
                   (projr (fit w (make_estimator role bucket) [(''train'', p)] False))
               @ script_deploy w role
                   (projr (upload_data w ''model.tar.gz'' bucket (s3_key_prefix @ ''/model'')))
               @ script_predict w (D td) @ script_teardown w)
              (\<lambda>u. True)"
    if b: "default_bucket w = Inr bucket" for role bucket p td
  proof (rule performs_bind [OF performs_train [OF b]])
    fix job
    assume "fit w (make_estimator role bucket) [(''train'', p)] False = Inr job"
    then show "performs w
               (bind_nb (cell_package w bucket job) (\<lambda>art.
               bind_nb (cell_deploy w role (region_name w) art) (\<lambda>p.
               bind_nb (cell_predict w p td) (\<lambda>summary. cell_teardown w p))))
              (script_package w bucket
                   (projr (fit w (make_estimator role bucket) [(''train'', p)] False))
               @ script_deploy w role
                   (projr (upload_data w ''model.tar.gz'' bucket (s3_key_prefix @ ''/model'')))
               @ script_predict w (D td) @ script_teardown w)
              (\<lambda>u. True)"
      using t4 [OF b, of job role td] by simp
  qed
  define rest where "rest role bucket region = (\<lambda>(test_data, s3_data_path).
               bind_nb (cell_train w role bucket s3_data_path) (\<lambda>job.
               bind_nb (cell_package w bucket job) (\<lambda>art.
               bind_nb (cell_deploy w role region art) (\<lambda>p.
               bind_nb (cell_predict w p test_data) (\<lambda>summary. cell_teardown w p)))))"
    for role bucket region
  define S where "S role bucket =
       (let est = make_estimator role bucket;
            s3_data_path = projr (upload_data w train_path bucket (s3_key_prefix @ ''/data''));
            job = projr (fit w est [(''train'', s3_data_path)] False);
            artifact = projr (upload_data w ''model.tar.gz'' bucket (s3_key_prefix @ ''/model''));
            test_data = projr (read_json w (wget w test_url))
        in script_train est s3_data_path job
           @ script_package w bucket job @ script_deploy w role artifact
           @ script_predict w (D test_data) @ script_teardown w)" for role bucket
  have t2: "performs w (bind_nb (cell_data w bucket) (rest role bucket (region_name w)))
              (script_data bucket @ S role bucket) (\<lambda>u. True)"
    if b: "default_bucket w = Inr bucket" for role bucket
  proof (rule performs_bind [OF performs_data [OF b]])
    fix x :: "dataframe \<times> string"
    obtain td p where x: "x = (td, p)" by (cases x)
    assume "case x of (test_data, s3_data_path) \<Rightarrow>
              read_json w (wget w test_url) = Inr test_data
              \<and> upload_data w train_path bucket (s3_key_prefix @ ''/data'') = Inr s3_data_path"
    with x have "read_json w (wget w test_url) = Inr td"
      "upload_data w train_path bucket (s3_key_prefix @ ''/data'') = Inr p" by simp_all
    then show "performs w (rest role bucket (region_name w) x) (S role bucket) (\<lambda>u. True)"
      using t3 [OF b, of role p td] by (simp add: x rest_def S_def Let_def)
  qed
  have t1: "performs w (bind_nb (cell_setup w) (\<lambda>(role, bucket, region).
              bind_nb (cell_data w bucket) (rest role bucket region)))
              (script_setup @ script_data (projr (default_bucket w))
                 @ S (projr (get_execution_role w)) (projr (default_bucket w))) (\<lambda>u. True)"
  proof (rule performs_bind [OF performs_setup])
    fix x :: "string \<times> string \<times> string"
    obtain role bucket region where x: "x = (role, bucket, region)" by (cases x)
    assume "case x of (role, bucket, region) \<Rightarrow>
              get_execution_role w = Inr role \<and> default_bucket w = Inr bucket
              \<and> region = region_name w"
    with x have h: "get_execution_role w = Inr role" "default_bucket w = Inr bucket"
      "region = region_name w" by simp_all
    show "performs w
            ((\<lambda>(role, bucket, region). bind_nb (cell_data w bucket) (rest role bucket region)) x)
            (script_data (projr (default_bucket w))
             @ S (projr (get_execution_role w)) (projr (default_bucket w))) (\<lambda>u. True)"
      using t2 [OF h(2), of role] by (simp add: x h)
  qed
  have n: "notebook w = bind_nb (cell_setup w) (\<lambda>(role, bucket, region).
              bind_nb (cell_data w bucket) (rest role bucket region))"
    by (simp add: notebook_def rest_def)
  have l: "linear_script w = script_setup @ script_data (projr (default_bucket w))
                 @ S (projr (get_execution_role w)) (projr (default_bucket w))"
    by (simp add: linear_script_def S_def D_def Let_def)
  show ?thesis unfolding n l by (rule t1)
qed

subsection \<open>Consequences for the record of a run\<close>

lemma run_follows:
  assumes "run w fs = (r, s')"
  shows "follows (raised r) (trace s') (linear_script w)"
    and "list_all (\<lambda>en. upload_ok w (action_of en) \<and> faithful w en) (trace s')"
proof -
  from assms have "notebook w \<lparr> trace = [], files = fs \<rparr> = (r, s')" by (simp add: run_def)
  from performsD [OF performs_notebook this]
  show "follows (raised r) (trace s') (linear_script w)"
    and "list_all (\<lambda>en. upload_ok w (action_of en) \<and> faithful w en) (trace s')"
    by auto
qed

lemma follows_prefix: "follows r es as \<Longrightarrow> prefix (map action_of es) as"
  by (induction r es as rule: follows.induct) (auto simp add: action_of_def comp_def)

lemma follows_complete: "follows None es as \<Longrightarrow> map action_of es = as"
  by (simp add: action_of_def comp_def)

lemma raised_errors_done [simp]: "raised_errors (map Done as) = []"
  by (induction as) (simp_all add: raised_errors_def)

lemma all_done [simp]: "list_all is_done (map Done as)"
  by (induction as) (simp_all add: is_done_def)


lemma run_actions:
  assumes "run w fs = (r, s')"
  shows "set (map action_of (trace s')) \<subseteq> set (linear_script w)"
  using follows_prefix [OF run_follows(1) [OF assms]] by (rule set_mono_prefix)


lemmas script_unfold = linear_script_def Let_def script_setup_def script_data_def script_train_def
  script_package_def script_deploy_def script_predict_def script_teardown_def



lemma script_hyperparameters: "list_all passes_hyperparameters (linear_script w)"
  by (simp add: script_unfold make_estimator_def)



section \<open>Order of the pipeline\<close>

text \<open>
  C2. In every run the recorded actions are an initial part of the linear script, and all
  of it when the run completes. Grouped into the steps of the overview the script reads:
  configure, fetch and inspect, upload the training data, submit the training job (with
  \<open>wait=False\<close>), wait for the job, repackage, deploy, sample request, tear down. So the
  blocking wait comes after the non-blocking submission and before the download of the
  artifact and the deployment.
\<close>

theorem notebook_is_linear_pipeline:
  assumes "run w fs = (r, s')"
  shows "prefix (map action_of (trace s')) (linear_script w)
         \<and> (r = Inr () \<longrightarrow> map action_of (trace s') = linear_script w)
         \<and> remdups_adj (map phase_of (linear_script w)) = nine_steps"
proof -
  note f = run_follows(1) [OF assms]
  have a: "prefix (map action_of (trace s')) (linear_script w)"
    using f by (rule follows_prefix)
  have b: "r = Inr () \<longrightarrow> map action_of (trace s') = linear_script w"
    using f follows_complete [of "trace s'" "linear_script w"] by (auto simp add: raised_def)
  have c: "remdups_adj (map phase_of (linear_script w)) = nine_steps"
    by (simp add: script_unfold nine_steps_def train_path_def)
  from a b c show ?thesis by (intro conjI)
qed

theorem notebook_is_linear_pipeline_witness:
  "fst (run demo_world example_fs) = Inr ()
   \<and> map action_of (trace (snd (run demo_world example_fs))) = linear_script demo_world
   \<and> remdups_adj (map phase_of (linear_script demo_world)) = nine_steps"
proof -
  have ok: "fst (run demo_world example_fs) = Inr ()" by code_simp
  have "run demo_world example_fs
        = (fst (run demo_world example_fs), snd (run demo_world example_fs))" by simp
  from notebook_is_linear_pipeline [OF this] ok show ?thesis by simp
qed

section \<open>Failures\<close>



section \<open>The data set files\<close>

text \<open>
  C7, as stated: each of the two data set files is fetched once, read once and uploaded
  once. In a complete run the test file is never uploaded.
\<close>

theorem test_file_never_uploaded:
  "fst (run demo_world example_fs) = Inr ()
   \<and> times (uploads test_path) (map action_of (trace (snd (run demo_world example_fs)))) = 0"
  by code_simp

text \<open>
  C7, amended. In a complete run the training file is fetched once, read into a table
  once and uploaded once; the test file is fetched once and read once, and is not
  uploaded.
\<close>

theorem dataset_file_lifecycle:
  assumes "run w fs = (Inr (), s')"
  shows "times (fetches train_path) (map action_of (trace s')) = 1
         \<and> times (reads train_path) (map action_of (trace s')) = 1
         \<and> times (uploads train_path) (map action_of (trace s')) = 1
         \<and> times (fetches test_path) (map action_of (trace s')) = 1
         \<and> times (reads test_path) (map action_of (trace s')) = 1
         \<and> times (uploads test_path) (map action_of (trace s')) = 0"
proof -
  from run_follows(1) [OF assms] have "map action_of (trace s') = linear_script w"
    using follows_complete [of "trace s'" "linear_script w"] by (simp add: raised_def)
  moreover have "''model.tar.gz'' \<noteq> train_path" "''model.tar.gz'' \<noteq> test_path"
    by (simp_all add: train_path_def test_path_def)
  ultimately show ?thesis
    by (simp add: script_unfold times_def paths_differ)
qed

theorem dataset_file_lifecycle_witness:
  "run demo_world example_fs = (Inr (), snd (run demo_world example_fs))
   \<and> times (fetches test_path) (map action_of (trace (snd (run demo_world example_fs)))) = 1
   \<and> times (reads test_path) (map action_of (trace (snd (run demo_world example_fs)))) = 1
   \<and> times (uploads train_path) (map action_of (trace (snd (run demo_world example_fs)))) = 1"
proof -
  have ok: "fst (run demo_world example_fs) = Inr ()" by code_simp
  then have h: "run demo_world example_fs = (Inr (), snd (run demo_world example_fs))"
    by (metis prod.collapse)
  from dataset_file_lifecycle [OF h] h show ?thesis by simp
qed

section \<open>Targets of the uploads\<close>

text \<open>
  C9. In every run each call of \<open>upload_data\<close> is given the bucket that
  \<open>default_bucket()\<close> returned and the key prefix \<open>flan-t5-finetune-for-dialogue/data\<close>
  for the training file or \<open>flan-t5-finetune-for-dialogue/model\<close> for the deployment
  package, and the estimator of each submitted job has the TensorBoard output path
  \<open>s3://<bucket>/flan-t5-finetune-for-dialogue/tensorboard\<close> in that bucket.
\<close>

theorem uploads_target_default_bucket:
  assumes "run w fs = (r, s')"
  shows "list_all (upload_ok w) (map action_of (trace s'))
         \<and> s3_key_prefix = ''flan-t5-finetune-for-dialogue''"
  using run_follows(2) [OF assms] by (simp add: list_all_iff s3_key_prefix_def)

theorem uploads_target_default_bucket_witness:
  "fst (run demo_world example_fs) = Inr ()
   \<and> list_all (upload_ok demo_world) (map action_of (trace (snd (run demo_world example_fs))))
   \<and> times (uploads ''model.tar.gz'')
        (map action_of (trace (snd (run demo_world example_fs)))) = 1"
proof -
  have ok: "fst (run demo_world example_fs) = Inr ()" by code_simp
  have n: "times (uploads ''model.tar.gz'')
        (map action_of (trace (snd (run demo_world example_fs)))) = 1" by code_simp
  have "run demo_world example_fs
        = (fst (run demo_world example_fs), snd (run demo_world example_fs))" by simp
  from uploads_target_default_bucket [OF this] ok n show ?thesis by simp
qed

section \<open>The endpoint\<close>



section \<open>The hyperparameters\<close>

text \<open>
  C3, as stated: the mapping consists of learning rate, batch size, epoch count, subsample
  percentage and model identifier. Its keys are not these five: it also holds the launcher
  settings \<open>training_script\<close> and \<open>config_file\<close>.
\<close>

theorem hyperparameters_not_only_five:
  "set (map fst training_hyperparameters)
   \<noteq> {''lr'', ''batch_size'', ''num_epochs'', ''subsample'', ''pretrained_model_name_or_path''}"
proof
  assume eq: "set (map fst training_hyperparameters)
   = {''lr'', ''batch_size'', ''num_epochs'', ''subsample'', ''pretrained_model_name_or_path''}"
  have "''config_file'' \<in> set (map fst training_hyperparameters)"
    by (simp add: training_hyperparameters_def)
  with eq show False by simp
qed

text \<open>
  C3, amended. The mapping has the seven keys \<open>training_script\<close>, \<open>config_file\<close>, \<open>lr\<close>,
  \<open>batch_size\<close>, \<open>subsample\<close>, \<open>num_epochs\<close> and \<open>pretrained_model_name_or_path\<close>, with
  \<open>lr = 3e-3\<close>, \<open>batch_size = 2\<close>, \<open>num_epochs = 2\<close>, \<open>subsample = 50\<close> and the model
  \<open>google/flan-t5-large\<close>, and every training job of a run is submitted with an estimator
  that holds exactly this mapping.
\<close>

theorem hyperparameters_passed_unchanged:
  assumes "run w fs = (r, s')"
  shows "list_all passes_hyperparameters (map action_of (trace s'))
         \<and> map fst training_hyperparameters
             = [''training_script'', ''config_file'', ''lr'', ''batch_size'', ''subsample'',
                ''num_epochs'', ''pretrained_model_name_or_path'']
         \<and> map_of training_hyperparameters ''lr'' = Some (HFloat 3 (- 3))
         \<and> map_of training_hyperparameters ''batch_size'' = Some (HInt 2)
         \<and> map_of training_hyperparameters ''num_epochs'' = Some (HInt 2)
         \<and> map_of training_hyperparameters ''subsample'' = Some (HInt 50)
         \<and> map_of training_hyperparameters ''pretrained_model_name_or_path''
             = Some (HStr ''google/flan-t5-large'')"
proof -
  have "list_all passes_hyperparameters (map action_of (trace s'))"
    using run_actions [OF assms] script_hyperparameters [of w] unfolding list_all_iff by blast
  then show ?thesis by (simp add: training_hyperparameters_def)
qed

theorem hyperparameters_passed_unchanged_witness:
  "fst (run demo_world example_fs) = Inr ()
   \<and> list_all passes_hyperparameters (map action_of (trace (snd (run demo_world example_fs))))
   \<and> times (\<lambda>a. case a of Fit est inputs wt \<Rightarrow> True | _ \<Rightarrow> False)
        (map action_of (trace (snd (run demo_world example_fs)))) = 1"
proof -
  have ok: "fst (run demo_world example_fs) = Inr ()" by code_simp
  have n: "times (\<lambda>a. case a of Fit est inputs wt \<Rightarrow> True | _ \<Rightarrow> False)
        (map action_of (trace (snd (run demo_world example_fs)))) = 1" by code_simp
  have "run demo_world example_fs
        = (fst (run demo_world example_fs), snd (run demo_world example_fs))" by simp
  from hyperparameters_passed_unchanged [OF this] ok n show ?thesis by simp
qed

section \<open>Inference request and response\<close>



end
